theory Spec2Isabelle
  imports Main "HOL-Library.Word"
begin

unbundle bit_operations_syntax

section \<open>Bit fields within a 32-bit instruction word (bitfield.py)\<close>

text \<open>
  The module treats Python integers as if they were 32-bit unsigned words. Python
  integers are unbounded and two's complement under \<open>&\<close>, \<open>|\<close>, \<open>~\<close>, \<open><<\<close> and
  \<open>>>\<close>, which is what \<^typ>\<open>int\<close> with \<open>AND\<close>, \<open>OR\<close>, \<open>NOT\<close>, \<^const>\<open>push_bit\<close>
  and \<^const>\<open>drop_bit\<close> is. A failing \<open>assert\<close> and a rejected construction are values
  of the error type.
\<close>

datatype error = AssertionError | ConstructionError

definition WORD_SIZE :: int where
  "WORD_SIZE = 32"

subsection \<open>sign_extend\<close>

text \<open>
  \<^verbatim>\<open>
  def sign_extend(field: int, width: int) -> int:
      log.debug("Sign extending {} ({}) in field of {} bits".format(...))
      assert width > 1
      assert field >= 0 and field < 1 << (width + 1)
      sign_bit = 1 << (width - 1)
      mask = sign_bit - 1
      if (field & sign_bit):
          log.debug("Complementing by subtracting 2^{}={}".format(width-1,sign_bit))
          extended = (field & mask) - sign_bit
          log.debug("Should return {} ({})".format(extended, bin(extended)))
          return extended
      else:
          return field
  \<close>
  \<open>sign_extend\<close> is the value the call returns, or the assertion that stops it.
  Both shifts are reached only when \<open>width > 1\<close>, so their counts are positive.
\<close>

definition sign_extend :: "int \<Rightarrow> int \<Rightarrow> error + int" where
  "sign_extend field width =
     (if width > 1 then
        if field \<ge> 0 \<and> field < push_bit (nat (width + 1)) 1 then
          let sign_bit = push_bit (nat (width - 1)) (1::int);
              mask = sign_bit - 1
          in if field AND sign_bit \<noteq> 0
             then (let extended = (field AND mask) - sign_bit in Inr extended)
             else Inr field
        else Inl AssertionError
      else Inl AssertionError)"

text \<open>
  The same function with its three \<open>log.debug\<close> calls kept. The logger is a module
  global of the \<open>logging\<close> library; its state is the type \<open>'s\<close> and its \<open>debug\<close>
  method an arbitrary state transformer \<open>debug\<close>, taken as a parameter. A message is
  the tuple of integers its format string is filled with.
\<close>

datatype debug_msg =
    Sign_extending int int
  | Complementing int int
  | Should_return int

definition sign_extend_logged ::
    "(debug_msg \<Rightarrow> 's \<Rightarrow> 's) \<Rightarrow> int \<Rightarrow> int \<Rightarrow> 's \<Rightarrow> (error + int) \<times> 's" where
  "sign_extend_logged debug field width s0 =
     (let s1 = debug (Sign_extending field width) s0 in
      if width > 1 then
        if field \<ge> 0 \<and> field < push_bit (nat (width + 1)) 1 then
          let sign_bit = push_bit (nat (width - 1)) (1::int);
              mask = sign_bit - 1
          in if field AND sign_bit \<noteq> 0
             then (let s2 = debug (Complementing (width - 1) sign_bit) s1;
                       extended = (field AND mask) - sign_bit;
                       s3 = debug (Should_return extended) s2
                   in (Inr extended, s3))
             else (Inr field, s1)
        else (Inl AssertionError, s1)
      else (Inl AssertionError, s1))"

subsection \<open>BitField\<close>

text \<open>
  The class body in the source is a placeholder (\<open>pass\<close> under a FIXME comment that
  describes the intended constructor, \<open>insert\<close> and \<open>extract\<close>); the descriptor
  below is therefore taken from the specification's data model and component design.
  The constructor arguments \<open>from_bit\<close> and \<open>to_bit\<close> are written \<open>fb\<close> and \<open>tb\<close>,
  the attribute names being those of the record.
\<close>

record bitfield =
  from_bit :: int
  to_bit :: int
  width :: int
  value_mask :: int
  field_mask :: int
  hole_mask :: int

text \<open>
  Modelled from the spec: the constructor of \<open>BitField\<close>, missing from the source.
  It accepts inclusive bounds with \<open>0 <= from_bit <= to_bit <= WordWidth - 1\<close> and
  fails otherwise; \<open>width = to_bit - from_bit + 1\<close>; \<open>value_mask\<close> has the low
  \<open>width\<close> bits set; \<open>field_mask\<close> is \<open>value_mask\<close> shifted left by \<open>from_bit\<close>;
  \<open>hole_mask\<close> is the complement of \<open>field_mask\<close> restricted to the word width.
\<close>

definition BitField :: "int \<Rightarrow> int \<Rightarrow> error + bitfield" where
  "BitField fb tb =
     (if 0 \<le> fb \<and> fb \<le> tb \<and> tb \<le> WORD_SIZE - 1 then
        let width = tb - fb + 1;
            value_mask = push_bit (nat width) 1 - 1;
            field_mask = push_bit (nat fb) value_mask;
            hole_mask = NOT field_mask AND (push_bit (nat WORD_SIZE) 1 - 1)
        in Inr \<lparr>from_bit = fb, to_bit = tb, width = width, value_mask = value_mask,
                field_mask = field_mask, hole_mask = hole_mask\<rparr>
      else Inl ConstructionError)"

text \<open>
  Modelled from the spec: the method \<open>insert\<close>, missing from the source. It clears
  the field's positions of \<open>word\<close> with \<open>hole_mask\<close>, masks \<open>field_value\<close> with
  \<open>value_mask\<close>, shifts it left by \<open>from_bit\<close> and combines the two with OR.
\<close>

definition insert_bf :: "bitfield \<Rightarrow> int \<Rightarrow> int \<Rightarrow> int" where
  "insert_bf f field_value word =
     (word AND hole_mask f) OR push_bit (nat (from_bit f)) (field_value AND value_mask f)"

text \<open>
  Modelled from the spec: the method \<open>extract\<close>, missing from the source. It shifts
  \<open>word\<close> right by \<open>from_bit\<close> and masks the result with \<open>value_mask\<close>.
\<close>

definition extract_bf :: "bitfield \<Rightarrow> int \<Rightarrow> int" where
  "extract_bf f word = drop_bit (nat (from_bit f)) word AND value_mask f"

section \<open>Bits of non-negative integers\<close>

lemma bit_of_hi:
  assumes "2 ^ n \<le> (f::int)" "f < 2 ^ Suc n"
  shows "bit f n"
proof -
  define r where "r = f - 2 ^ n"
  have r: "0 \<le> r" "r < 2 ^ n" using assms by (simp_all add: r_def)
  have "(r + 2 ^ n) div 2 ^ n = r div 2 ^ n + 1"
    by (rule div_add_self2) simp
  then have "f div 2 ^ n = r div 2 ^ n + 1" by (simp add: r_def)
  also have "\<dots> = 1" using r by (simp add: div_pos_pos_trivial)
  finally show ?thesis by (simp add: bit_int_def)
qed

lemma low_of_no_signbit:
  assumes "f < 2 ^ Suc n" "\<not> bit (f::int) n"
  shows "f < 2 ^ n"
  using bit_of_hi [of n f] assms by fastforce

lemma hi_of_signbit:
  assumes "bit (f::int) n" "0 \<le> f"
  shows "2 ^ n \<le> f"
proof (rule ccontr)
  assume "\<not> 2 ^ n \<le> f"
  then have "f div 2 ^ n = 0" using assms(2) by (simp add: div_pos_pos_trivial)
  with assms(1) show False by (simp add: bit_int_def)
qed

lemma and_pow_mask: "(f::int) AND (2 ^ n - 1) = f mod 2 ^ n"
  by (simp add: mask_eq_exp_minus_1 [symmetric] take_bit_eq_mask [symmetric] take_bit_eq_mod)

lemma clear_signbit:
  assumes "bit (f::int) n" "0 \<le> f" "f < 2 ^ Suc n"
  shows "f AND (2 ^ n - 1) = f - 2 ^ n"
proof -
  define r where "r = f - 2 ^ n"
  have r: "0 \<le> r" "r < 2 ^ n"
    using hi_of_signbit [OF assms(1,2)] assms(3) by (simp_all add: r_def)
  have "f mod 2 ^ n = (r + 2 ^ n) mod 2 ^ n" by (simp add: r_def)
  also have "\<dots> = r" using r by (simp add: mod_pos_pos_trivial)
  finally show ?thesis by (simp add: and_pow_mask r_def)
qed

lemma word_high_bits:
  assumes "0 \<le> (w::int)" "w < 2 ^ 32" "32 \<le> n"
  shows "\<not> bit w n"
proof -
  have "take_bit 32 w = w" using assms(1,2) by (simp add: take_bit_int_eq_self)
  then have "bit w n = bit (take_bit 32 w) n" by simp
  also have "\<dots> = False" using assms(3) by (simp add: bit_take_bit_iff)
  finally show ?thesis by simp
qed

section \<open>Properties of sign_extend\<close>

lemma sign_extend_logged_value:
  "fst (sign_extend_logged debug field wd s) = sign_extend field wd"
  by (simp add: sign_extend_logged_def sign_extend_def Let_def)

lemma shift_domain:
  assumes "1 < wd"
  shows "nat wd = Suc (nat (wd - 1))" "nat (wd + 1) = Suc (Suc (nat (wd - 1)))"
  using assms by simp_all

text \<open>
  C4. On the documented domain, \<open>width > 1\<close> and \<open>0 <= field < 2^width\<close>, the call
  returns \<open>field\<close> itself when \<open>field & (1 << (width - 1))\<close> is zero and
  \<open>field - 2^width\<close> otherwise, and the value returned lies between
  \<open>-2^(width-1)\<close> and \<open>2^(width-1) - 1\<close>.
\<close>

theorem sign_extend_in_contract:
  assumes "1 < wd" "0 \<le> field" "field < 2 ^ nat wd"
  shows "sign_extend field wd =
           Inr (if field AND push_bit (nat (wd - 1)) 1 = 0 then field
                else field - 2 ^ nat wd)
         \<and> (\<exists>r. sign_extend field wd = Inr r
                \<and> - (2 ^ nat (wd - 1)) \<le> r \<and> r \<le> 2 ^ nat (wd - 1) - 1)"
proof -
  define n where "n = nat (wd - 1)"
  have w: "nat wd = Suc n" "nat (wd + 1) = Suc (Suc n)"
    using shift_domain [OF assms(1)] by (simp_all add: n_def)
  have lt: "field < 2 ^ Suc n" using assms(3) by (simp only: w)
  have "(2::int) ^ Suc n \<le> 2 ^ Suc (Suc n)" by simp
  with lt have dom: "field < push_bit (nat (wd + 1)) 1"
    by (simp only: w push_bit_eq_mult mult_1)
  show ?thesis
  proof (cases "bit field n")
    case True
    have hi: "2 ^ n \<le> field" by (rule hi_of_signbit [OF True assms(2)])
    have "sign_extend field wd = Inr (field - 2 ^ Suc n)"
      using assms(1,2) dom True clear_signbit [OF True assms(2) lt]
      by (simp add: sign_extend_def Let_def n_def [symmetric] push_bit_eq_mult
          and_exp_eq_0_iff_not_bit)
    then show ?thesis using True hi lt
      by (simp add: w n_def [symmetric] push_bit_eq_mult and_exp_eq_0_iff_not_bit)
  next
    case False
    have lo: "field < 2 ^ n" by (rule low_of_no_signbit [OF lt False])
    have "sign_extend field wd = Inr field"
      using assms(1,2) dom False
      by (simp add: sign_extend_def Let_def n_def [symmetric] push_bit_eq_mult
          and_exp_eq_0_iff_not_bit)
    then show ?thesis using False lo assms(2)
      by (simp add: w n_def [symmetric] push_bit_eq_mult and_exp_eq_0_iff_not_bit)
  qed
qed

text \<open>The theorem at a 3-bit field holding \<open>0b101\<close>, whose sign bit is set.\<close>

theorem sign_extend_in_contract_witness:
  "(1::int) < 3 \<and> (0::int) \<le> 5 \<and> (5::int) < 2 ^ nat 3
   \<and> sign_extend 5 3 = Inr (- 3)
   \<and> (\<exists>r. sign_extend 5 3 = Inr r \<and> - 4 \<le> r \<and> r \<le> 3)"
proof -
  have h: "(1::int) < 3" "(0::int) \<le> 5" "(5::int) < 2 ^ nat 3" by simp_all
  show ?thesis using h sign_extend_in_contract [OF h] by simp
qed

text \<open>
  C5. The specification has every call with \<open>field\<close> outside \<open>[0, 2^width)\<close> stopped
  by an assertion. The second assertion of the source compares \<open>field\<close> with
  \<open>1 << (width + 1)\<close>, one bit more than the docstring's "field must fit in width
  bits": the call with \<open>field = 4\<close> and \<open>width = 2\<close> passes both assertions and
  returns 4.
\<close>

theorem sign_extend_overwide_returns:
  "sign_extend 4 2 = Inr 4"
  by (simp add: sign_extend_def)

text \<open>
  C6. The concrete values of the specification: in a 3-bit field the patterns
  \<open>0b111\<close>, \<open>0b011\<close> and \<open>0b100\<close> read as \<open>-1\<close>, \<open>3\<close> and \<open>-4\<close>, and the pattern 7
  in a 4-bit field stays 7.
\<close>

theorem sign_extend_examples:
  "sign_extend 7 3 = Inr (- 1) \<and> sign_extend 3 3 = Inr 3
   \<and> sign_extend 4 3 = Inr (- 4) \<and> sign_extend 7 4 = Inr 7"
  by (simp add: sign_extend_def)

text \<open>
  C8. The value returned by \<open>sign_extend\<close> is a function of \<open>field\<close> and \<open>width\<close>
  alone: two calls with the same arguments return the same result (or stop at the
  same assertion) whatever the logger does with the debug messages and whatever
  state it is in.
\<close>

theorem sign_extend_deterministic:
  "fst (sign_extend_logged debug1 field wd s1) = fst (sign_extend_logged debug2 field wd s2)"
  by (simp add: sign_extend_logged_value)

text \<open>
  C9. The domain the assertions accept is \<open>width > 1\<close> and
  \<open>0 <= field < 2^(width+1)\<close>: every such call returns a value, and so does the call
  with \<open>field = 2^width\<close>, which does not fit in \<open>width\<close> bits.
\<close>

theorem sign_extend_accepted_domain:
  assumes "1 < wd" "0 \<le> field" "field < 2 ^ nat (wd + 1)"
  shows "(\<exists>r. sign_extend field wd = Inr r)
         \<and> (\<exists>r. sign_extend (2 ^ nat wd) wd = Inr r)"
proof -
  have accepted: "\<exists>r. sign_extend x wd = Inr r" if "0 \<le> x" "x < 2 ^ nat (wd + 1)" for x
    using assms(1) that by (simp add: sign_extend_def Let_def push_bit_eq_mult)
  have "(2::int) ^ nat wd < 2 ^ nat (wd + 1)"
    using assms(1) by (simp add: shift_domain)
  then have "\<exists>r. sign_extend (2 ^ nat wd) wd = Inr r"
    by (intro accepted) simp_all
  with accepted [OF assms(2,3)] show ?thesis by simp
qed

text \<open>The theorem at \<open>width = 3\<close> and \<open>field = 13\<close>, between \<open>2^3\<close> and \<open>2^4\<close>.\<close>

theorem sign_extend_accepted_domain_witness:
  "(1::int) < 3 \<and> (0::int) \<le> 13 \<and> (13::int) < 2 ^ nat (3 + 1)
   \<and> (\<exists>r. sign_extend 13 3 = Inr r) \<and> (\<exists>r. sign_extend (2 ^ nat 3) 3 = Inr r)"
proof -
  have h: "(1::int) < 3" "(0::int) \<le> 13" "(13::int) < 2 ^ nat (3 + 1)" by simp_all
  show ?thesis using h sign_extend_accepted_domain [OF h] by blast
qed

text \<open>
  C10. For \<open>width > 1\<close> and \<open>2^width <= field < 2^(width+1)\<close> with bit
  \<open>width - 1\<close> of \<open>field\<close> zero, the call returns \<open>field\<close> unchanged, which is
  greater than \<open>2^(width-1) - 1\<close>, the largest value of a signed field of that width.
\<close>

theorem sign_extend_overwide_unchanged:
  assumes "1 < wd" "2 ^ nat wd \<le> field" "field < 2 ^ nat (wd + 1)"
    and "field AND push_bit (nat (wd - 1)) 1 = 0"
  shows "sign_extend field wd = Inr field \<and> 2 ^ nat (wd - 1) - 1 < field"
proof -
  have "(0::int) < 2 ^ nat wd" by simp
  with assms(2) have nonneg: "0 \<le> field" by linarith
  have dom: "field < push_bit (nat (wd + 1)) 1"
    using assms(3) by (simp add: push_bit_eq_mult)
  have ret: "sign_extend field wd = Inr field"
    using assms(1,4) nonneg dom by (simp add: sign_extend_def Let_def)
  have "(2::int) ^ nat (wd - 1) \<le> 2 ^ nat wd"
    by (rule power_increasing) simp_all
  with assms(2) have "2 ^ nat (wd - 1) - 1 < field" by linarith
  with ret show ?thesis by simp
qed

text \<open>The theorem at \<open>width = 3\<close> and \<open>field = 0b1001\<close>, whose bit 2 is zero.\<close>

theorem sign_extend_overwide_unchanged_witness:
  "(1::int) < 3 \<and> 2 ^ nat 3 \<le> (9::int) \<and> (9::int) < 2 ^ nat (3 + 1)
   \<and> (9::int) AND push_bit (nat (3 - 1)) 1 = 0
   \<and> sign_extend 9 3 = Inr 9 \<and> 2 ^ nat (3 - 1) - 1 < (9::int)"
proof -
  have h: "(1::int) < 3" "2 ^ nat 3 \<le> (9::int)" "(9::int) < 2 ^ nat (3 + 1)"
    "(9::int) AND push_bit (nat (3 - 1)) 1 = 0" by simp_all
  show ?thesis using h sign_extend_overwide_unchanged [OF h] by blast
qed

section \<open>Properties of BitField\<close>

lemma BitField_Inr:
  assumes "BitField fb tb = Inr f"
  shows "0 \<le> fb" "fb \<le> tb" "tb \<le> 31"
    "from_bit f = fb" "to_bit f = tb" "width f = tb - fb + 1"
    "value_mask f = mask (nat (tb - fb + 1))"
    "field_mask f = push_bit (nat fb) (mask (nat (tb - fb + 1)))"
    "hole_mask f = NOT (push_bit (nat fb) (mask (nat (tb - fb + 1)))) AND mask 32"
  using assms
  by (auto simp: BitField_def WORD_SIZE_def Let_def mask_eq_exp_minus_1 push_bit_eq_mult
      split: if_splits)

lemma BitField_4_7:
  "BitField 4 7 = Inr \<lparr>from_bit = 4, to_bit = 7, width = 4, value_mask = 15,
                        field_mask = 240, hole_mask = 4294967055\<rparr>"
  by (simp add: BitField_def WORD_SIZE_def)

text \<open>
  C1. Round trip: for a field \<open>f\<close> that the constructor returned, any word \<open>w\<close> and
  any integer \<open>v\<close>, extracting from \<open>insert(v, w)\<close> gives \<open>v & ((1 << k) - 1)\<close>, the
  low \<open>k\<close> bits of \<open>v\<close>, where \<open>k\<close> is the width of \<open>f\<close>.
\<close>

theorem insert_extract_round_trip:
  assumes "BitField fb tb = Inr f"
  shows "extract_bf f (insert_bf f v w) = v AND (push_bit (nat (width f)) 1 - 1)"
proof -
  note bf = BitField_Inr [OF assms]
  have "extract_bf f (insert_bf f v w) = v AND mask (nat (tb - fb + 1))"
    unfolding extract_bf_def insert_bf_def bf
    by (rule bit_eqI) (auto simp: bit_simps)
  then show ?thesis by (simp add: bf mask_eq_exp_minus_1 push_bit_eq_mult)
qed

text \<open>
  The theorem at the field of bits 4..7, the word \<open>0xaa00aa00\<close> and the value
  \<open>0x1ff\<close>, which is wider than the field: \<open>0xf\<close> comes back.
\<close>

theorem insert_extract_round_trip_witness:
  "\<exists>f. BitField 4 7 = Inr f \<and> extract_bf f (insert_bf f 0x1ff 0xaa00aa00) = 0xf"
proof -
  obtain f where f: "BitField 4 7 = Inr f" by (simp add: BitField_4_7)
  have "width f = 4" using BitField_Inr(6) [OF f] by simp
  with insert_extract_round_trip [OF f, of "0x1ff" "0xaa00aa00"]
  have "extract_bf f (insert_bf f 0x1ff 0xaa00aa00) = 0xf" by simp
  with f show ?thesis by blast
qed

text \<open>
  C2. Frame property: for a field \<open>f\<close> that the constructor returned, any word \<open>w\<close>
  (an unsigned 32-bit value) and any value \<open>v\<close>, the word \<open>insert(v, w)\<close> has the bit
  of \<open>w\<close> at every position below \<open>from_bit\<close> and at every position above \<open>to_bit\<close>.
\<close>

theorem insert_frame:
  assumes "BitField fb tb = Inr f" "0 \<le> w" "w < 2 ^ 32"
    and "int n < from_bit f \<or> to_bit f < int n"
  shows "bit (insert_bf f v w) n = bit w n"
proof -
  note bf = BitField_Inr [OF assms(1)]
  have out: "\<not> (nat fb \<le> n \<and> n - nat fb < nat (tb - fb + 1))"
    using assms(4) bf(1,2) by (auto simp: bf(4,5))
  have hi: "bit w n \<longrightarrow> n < 32"
    using word_high_bits [OF assms(2,3), of n] by (cases "n < 32") simp_all
  show ?thesis
    unfolding insert_bf_def bf
    using out hi by (auto simp: bit_simps)
qed

text \<open>
  The theorem at the field of bits 4..7, the word \<open>0xaa00aa00\<close>, the value \<open>0xf\<close>
  and bit 9, which is set in the word and stays set.
\<close>

theorem insert_frame_witness:
  "\<exists>f. BitField 4 7 = Inr f \<and> (0::int) \<le> 0xaa00aa00 \<and> (0xaa00aa00::int) < 2 ^ 32
       \<and> (int 9 < from_bit f \<or> to_bit f < int 9)
       \<and> bit (insert_bf f 0xf 0xaa00aa00) (9::nat) \<and> bit (0xaa00aa00::int) (9::nat)"
proof -
  obtain f where f: "BitField 4 7 = Inr f" by (simp add: BitField_4_7)
  have h: "(0::int) \<le> 0xaa00aa00" "(0xaa00aa00::int) < 2 ^ 32"
    "int 9 < from_bit f \<or> to_bit f < int 9"
    using BitField_Inr(4,5) [OF f] by simp_all
  have b: "bit (0xaa00aa00::int) (9::nat)" by (simp add: bit_iff_odd)
  with insert_frame [OF f h, of "0xf"]
  have "bit (insert_bf f 0xf 0xaa00aa00) (9::nat)" by simp
  with f h b show ?thesis by blast
qed

text \<open>
  C3. Construction succeeds exactly when \<open>0 <= from_bit <= to_bit <= 31\<close> and fails
  with a construction error otherwise, without clamping: \<open>BitField(4, 7)\<close> is a field
  of width 4, and \<open>BitField(30, 35)\<close> and \<open>BitField(5, 2)\<close> are errors.
\<close>

theorem BitField_construction:
  "(\<exists>f. BitField fb tb = Inr f) = (0 \<le> fb \<and> fb \<le> tb \<and> tb \<le> 31)
   \<and> (BitField fb tb = Inl ConstructionError) = (fb < 0 \<or> tb < fb \<or> 31 < tb)
   \<and> (\<exists>f. BitField 4 7 = Inr f \<and> from_bit f = 4 \<and> to_bit f = 7 \<and> width f = 4)
   \<and> BitField 30 35 = Inl ConstructionError
   \<and> BitField 5 2 = Inl ConstructionError"
  by (auto simp: BitField_def WORD_SIZE_def Let_def)

text \<open>
  C7. The documented example: for the field of bits 4..7, inserting \<open>0x0f\<close> into
  the word \<open>0xaa00aa00\<close> gives \<open>0xaa00aaf0\<close>.
\<close>

theorem insert_documented_example:
  "\<exists>f. BitField 4 7 = Inr f \<and> insert_bf f 0x0f 0xaa00aa00 = 0xaa00aaf0"
  by (simp add: BitField_4_7 insert_bf_def)

end
